theory Spec2Isabelle
  imports Main
begin

section \<open>The manifest of pip-tools-compile\<close>

text \<open>
  The repository is one file, \<^verbatim>\<open>setup.py\<close>: a single call of the packaging
  library's \<^verbatim>\<open>setup\<close> function with four keyword arguments, each a literal.
  The keyword arguments are the package metadata; they are modelled as a record with the
  argument names as field names and the argument values as they are written.
\<close>

record metadata =
  name :: string
  version :: string
  install_requires :: "string list"
  scripts :: "string list"

text \<open>
  Lines 4 to 12 of \<^verbatim>\<open>setup.py\<close>. The fourth requirement string is written
  \<^verbatim>\<open>'mock>=2.0.0; python_version < \'3\''\<close> in the source: it ends with the
  character \<^verbatim>\<open>'\<close> (code 0x27), appended here as a character since a string
  literal of HOL cannot end with it.
\<close>

definition setup_args :: metadata where
  "setup_args =
     \<lparr> name = ''pip-tools-compile'',
       version = ''1.0'',
       install_requires =
         [ ''six'',
           ''pip-tools==3.6.1'',
           ''pip==19.3.1'',
           ''mock>=2.0.0; python_version < '3'' @ [CHR 0x27] ],
       scripts = [''pip-tools-compile''] \<rparr>"

subsection \<open>Evaluation of the manifest\<close>

text \<open>
  What the script can see when it is run: the interpreter's version (major, minor), the
  environment variables, the command line and the files on disk.

  The script's one statement (line 3) is the call of \<^verbatim>\<open>setup\<close> with the keyword
  arguments. The argument expressions are literals: evaluating them reads nothing and
  writes nothing. The called function is the packaging library's, not code of this
  repository: it reads the command line and runs the command named there, which may
  write files. It is taken as a parameter \<open>run_setup\<close>, the effect of the call on the
  environment given the metadata. Running the script yields the metadata it passed and
  the environment the call left behind.
\<close>

record environment =
  python_version :: "nat \<times> nat"
  os_environ :: "string \<rightharpoonup> string"
  argv :: "string list"
  files :: "string \<rightharpoonup> string"

definition evaluate_manifest ::
    "(metadata \<Rightarrow> environment \<Rightarrow> environment) \<Rightarrow> environment \<Rightarrow> metadata \<times> environment" where
  "evaluate_manifest run_setup env = (setup_args, run_setup setup_args env)"

section \<open>Reading requirement strings\<close>

text \<open>
  The entries of \<^verbatim>\<open>install_requires\<close> are requirement strings of the packaging
  ecosystem: a package name, an optional comma-separated list of version clauses
  (operator and version), and an optional environment marker after a semicolon. The
  functions below read the fragment of that language the manifest uses: names, the six
  ordering operators, versions that are dot-separated numbers (final releases), and a
  marker comparing \<^verbatim>\<open>python_version\<close> with a quoted version. Anything else
  (extras, URLs, compatible-release and arbitrary-equality clauses, pre-release tags,
  other marker variables, \<^verbatim>\<open>and\<close>/\<^verbatim>\<open>or\<close>) is rejected with \<open>None\<close>.
\<close>

datatype cmp_op = Op_eq | Op_ne | Op_le | Op_ge | Op_lt | Op_gt

type_synonym release = "nat list"

datatype marker = Python_version_cmp cmp_op release

record requirement =
  req_name :: string
  req_specs :: "(cmp_op \<times> release) list"
  req_marker :: "marker option"

definition is_space :: "char \<Rightarrow> bool" where
  "is_space c = (c = CHR '' '' \<or> c = CHR 0x09)"

definition strip :: "string \<Rightarrow> string" where
  "strip s = rev (dropWhile is_space (rev (dropWhile is_space s)))"

definition is_digit :: "char \<Rightarrow> bool" where
  "is_digit c = (48 \<le> (of_char c :: nat) \<and> (of_char c :: nat) \<le> 57)"

definition is_letter :: "char \<Rightarrow> bool" where
  "is_letter c =
     ((65 \<le> (of_char c :: nat) \<and> (of_char c :: nat) \<le> 90) \<or>
      (97 \<le> (of_char c :: nat) \<and> (of_char c :: nat) \<le> 122))"

definition is_alnum :: "char \<Rightarrow> bool" where
  "is_alnum c = (is_letter c \<or> is_digit c)"

definition is_name_char :: "char \<Rightarrow> bool" where
  "is_name_char c = (is_alnum c \<or> c = CHR ''-'' \<or> c = CHR ''_'' \<or> c = CHR ''.'')"

definition is_ident_char :: "char \<Rightarrow> bool" where
  "is_ident_char c = (is_alnum c \<or> c = CHR ''_'')"

fun split_on :: "char \<Rightarrow> string \<Rightarrow> string list" where
  "split_on c [] = [[]]"
| "split_on c (x # xs) =
     (if x = c then [] # split_on c xs
      else (case split_on c xs of
              [] \<Rightarrow> [[x]]
            | w # ws \<Rightarrow> (x # w) # ws))"

definition parse_nat :: "string \<Rightarrow> nat option" where
  "parse_nat s =
     (if s \<noteq> [] \<and> list_all is_digit s
      then Some (foldl (\<lambda>n c. 10 * n + ((of_char c :: nat) - 48)) 0 s)
      else None)"

definition parse_release :: "string \<Rightarrow> release option" where
  "parse_release s = those (map parse_nat (split_on (CHR ''.'') s))"

definition parse_op :: "string \<Rightarrow> (cmp_op \<times> string) option" where
  "parse_op s =
     (if take 2 s = ''=='' then Some (Op_eq, drop 2 s)
      else if take 2 s = ''!='' then Some (Op_ne, drop 2 s)
      else if take 2 s = ''<='' then Some (Op_le, drop 2 s)
      else if take 2 s = ''>='' then Some (Op_ge, drop 2 s)
      else if take 1 s = ''<'' then Some (Op_lt, drop 1 s)
      else if take 1 s = ''>'' then Some (Op_gt, drop 1 s)
      else None)"

definition parse_clause :: "string \<Rightarrow> (cmp_op \<times> release) option" where
  "parse_clause s =
     (case parse_op (strip s) of
        None \<Rightarrow> None
      | Some (op, rest) \<Rightarrow> map_option (Pair op) (parse_release (strip rest)))"

definition parse_specs :: "string \<Rightarrow> (cmp_op \<times> release) list option" where
  "parse_specs s =
     (if strip s = [] then Some []
      else those (map parse_clause (split_on (CHR '','') s)))"

definition is_quote :: "char \<Rightarrow> bool" where
  "is_quote c = (c = CHR 0x27 \<or> c = CHR 0x22)"

definition unquote :: "string \<Rightarrow> string option" where
  "unquote s =
     (if 2 \<le> length s \<and> is_quote (hd s) \<and> last s = hd s \<and> hd s \<notin> set (butlast (tl s))
      then Some (butlast (tl s))
      else None)"

definition parse_marker :: "string \<Rightarrow> marker option" where
  "parse_marker s =
     (if takeWhile is_ident_char (strip s) = ''python_version''
      then (case parse_op (strip (dropWhile is_ident_char (strip s))) of
              None \<Rightarrow> None
            | Some (op, rest) \<Rightarrow>
                (case unquote (strip rest) of
                   None \<Rightarrow> None
                 | Some lit \<Rightarrow> map_option (Python_version_cmp op) (parse_release lit)))
      else None)"

definition parse_name :: "string \<Rightarrow> string option" where
  "parse_name s =
     (if s \<noteq> [] \<and> is_alnum (hd s) \<and> is_alnum (last s) then Some s else None)"

definition parse_requirement :: "string \<Rightarrow> requirement option" where
  "parse_requirement s =
     (let front = strip (takeWhile (\<lambda>c. c \<noteq> CHR '';'') s);
          back = dropWhile (\<lambda>c. c \<noteq> CHR '';'') s
      in case parse_name (takeWhile is_name_char front) of
           None \<Rightarrow> None
         | Some n \<Rightarrow>
             (case parse_specs (dropWhile is_name_char front) of
                None \<Rightarrow> None
              | Some sp \<Rightarrow>
                  (if back = [] then
                     Some \<lparr> req_name = n, req_specs = sp, req_marker = None \<rparr>
                   else
                     (case parse_marker (tl back) of
                        None \<Rightarrow> None
                      | Some m \<Rightarrow>
                          Some \<lparr> req_name = n, req_specs = sp, req_marker = Some m \<rparr>))))"

section \<open>Meaning of version clauses and markers\<close>

text \<open>
  Releases are compared number by number from the left, the shorter one padded with
  zeros: \<open>3.6.1\<close> and \<open>3.6.1.0\<close> are the same release, and \<open>2.7\<close> is below \<open>3\<close>.
\<close>

fun release_le :: "release \<Rightarrow> release \<Rightarrow> bool" where
  "release_le [] ys = True"
| "release_le (x # xs) [] = (x = 0 \<and> release_le xs [])"
| "release_le (x # xs) (y # ys) = (x < y \<or> (x = y \<and> release_le xs ys))"

definition release_eq :: "release \<Rightarrow> release \<Rightarrow> bool" where
  "release_eq v w = (release_le v w \<and> release_le w v)"

fun compare_release :: "cmp_op \<Rightarrow> release \<Rightarrow> release \<Rightarrow> bool" where
  "compare_release Op_eq v w = release_eq v w"
| "compare_release Op_ne v w = (\<not> release_eq v w)"
| "compare_release Op_le v w = release_le v w"
| "compare_release Op_ge v w = release_le w v"
| "compare_release Op_lt v w = (\<not> release_le w v)"
| "compare_release Op_gt v w = (\<not> release_le v w)"

text \<open>A release satisfies a list of clauses when it satisfies each of them.\<close>

definition satisfies :: "release \<Rightarrow> (cmp_op \<times> release) list \<Rightarrow> bool" where
  "satisfies v sp = list_all (\<lambda>(op, w). compare_release op v w) sp"

text \<open>A clause list pins its package when one of its clauses is an equality.\<close>

definition exact_pin :: "(cmp_op \<times> release) list \<Rightarrow> bool" where
  "exact_pin sp = list_ex (\<lambda>(op, w). op = Op_eq) sp"

text \<open>
  The value of the marker variable \<^verbatim>\<open>python_version\<close> is the interpreter's major
  and minor version joined by a dot, read here as the release \<open>[major, minor]\<close>.
\<close>

definition python_release :: "environment \<Rightarrow> release" where
  "python_release env = [fst (python_version env), snd (python_version env)]"

fun marker_holds :: "environment \<Rightarrow> marker \<Rightarrow> bool" where
  "marker_holds env (Python_version_cmp op lit) = compare_release op (python_release env) lit"

definition applies :: "environment \<Rightarrow> requirement \<Rightarrow> bool" where
  "applies env r = (case req_marker r of None \<Rightarrow> True | Some m \<Rightarrow> marker_holds env m)"

subsection \<open>The requirements of the manifest\<close>

definition requirements :: "requirement list option" where
  "requirements = those (map parse_requirement (install_requires setup_args))"

text \<open>The names of the requirements that apply in an environment, in manifest order.\<close>

definition required :: "environment \<Rightarrow> string list option" where
  "required env = map_option (\<lambda>rs. map req_name (filter (applies env) rs)) requirements"

text \<open>The clause list the manifest declares for a package name.\<close>

definition declared_specs :: "string \<Rightarrow> (cmp_op \<times> release) list option" where
  "declared_specs n =
     (case requirements of
        None \<Rightarrow> None
      | Some rs \<Rightarrow> map_option req_specs (find (\<lambda>r. req_name r = n) rs))"

subsection \<open>Two concrete environments\<close>

definition python27 :: environment where
  "python27 =
     \<lparr> python_version = (2, 7), os_environ = Map.empty, argv = [], files = Map.empty \<rparr>"

definition python38 :: environment where
  "python38 =
     \<lparr> python_version = (3, 8), os_environ = Map.empty,
       argv = [''setup.py'', ''install''], files = Map.empty \<rparr>"

section \<open>The order on releases\<close>

lemma release_le_refl: "release_le v v"
  by (induction v) simp_all

lemma release_le_total: "release_le v w \<or> release_le w v"
  by (induction v w rule: release_le.induct) auto

lemma release_le_trans: "release_le u v \<Longrightarrow> release_le v w \<Longrightarrow> release_le u w"
proof (induction u v arbitrary: w rule: release_le.induct)
  case (1 ys)
  show ?case by simp
next
  case (2 x xs)
  then show ?case by (cases w) auto
next
  case (3 x xs y ys)
  then show ?case by (cases w) auto
qed

lemma release_eq_refl: "release_eq v v"
  by (simp add: release_eq_def release_le_refl)

lemma release_eq_sym: "release_eq u v \<Longrightarrow> release_eq v u"
  by (simp add: release_eq_def)

lemma release_eq_trans: "release_eq u v \<Longrightarrow> release_eq v w \<Longrightarrow> release_eq u w"
  unfolding release_eq_def by (blast intro: release_le_trans)

text \<open>Trailing zeros do not change a release: \<open>3.6.1.0\<close> is \<open>3.6.1\<close>.\<close>

lemma release_eq_pad: "release_eq (v @ [0]) v"
proof -
  have a: "release_le (v @ [0]) v" by (induction v) simp_all
  have b: "release_le v (v @ [0])" by (induction v) simp_all
  from a b show ?thesis by (simp add: release_eq_def)
qed

text \<open>
  A pinned clause list admits one release only (up to trailing zeros): this is what
  makes an equality clause a pin.
\<close>

lemma exact_pin_single:
  assumes pin: "exact_pin sp" and v: "satisfies v sp" and w: "satisfies w sp"
  shows "release_eq v w"
proof -
  from pin obtain p where p: "(Op_eq, p) \<in> set sp"
    by (auto simp: exact_pin_def list_ex_iff)
  from v p have "release_eq v p"
    by (auto simp: satisfies_def list_all_iff)
  moreover from w p have "release_eq w p"
    by (auto simp: satisfies_def list_all_iff)
  ultimately show ?thesis
    by (blast intro: release_eq_trans release_eq_sym)
qed

text \<open>
  For an interpreter version \<open>major.minor\<close>, the comparison \<^verbatim>\<open>python_version < '3'\<close>
  holds exactly when the major version is below 3, and \<^verbatim>\<open>python_version >= '3'\<close>
  exactly when it does not.
\<close>

lemma python_older_iff_major:
  "compare_release Op_lt (python_release env) [3] = (fst (python_version env) < 3)"
  by (auto simp: python_release_def)

lemma python_newer_iff_major:
  "compare_release Op_ge (python_release env) [3] = (3 \<le> fst (python_version env))"
  by (auto simp: python_release_def)

section \<open>The manifest's requirements\<close>

lemma requirements_parsed:
  "requirements =
     Some [ \<lparr> req_name = ''six'', req_specs = [], req_marker = None \<rparr>,
            \<lparr> req_name = ''pip-tools'', req_specs = [(Op_eq, [3, 6, 1])], req_marker = None \<rparr>,
            \<lparr> req_name = ''pip'', req_specs = [(Op_eq, [19, 3, 1])], req_marker = None \<rparr>,
            \<lparr> req_name = ''mock'', req_specs = [(Op_ge, [2, 0, 0])],
              req_marker = Some (Python_version_cmp Op_lt [3]) \<rparr> ]"
  by code_simp

lemma required_names:
  "required env =
     Some (if fst (python_version env) < 3
           then [''six'', ''pip-tools'', ''pip'', ''mock'']
           else [''six'', ''pip-tools'', ''pip''])"
  by (simp add: required_def requirements_parsed applies_def python_release_def)

text \<open>
  Within the manifest no package is constrained twice and every clause list has a release
  that satisfies it. Whether the pinned releases agree with each other's own requirements
  is decided by the package index, which the manifest does not contain.
\<close>

lemma declared_constraints_satisfiable:
  "\<exists>rs. requirements = Some rs \<and> distinct (map req_name rs) \<and>
        list_all (\<lambda>r. \<exists>v. satisfies v (req_specs r)) rs"
proof -
  have "\<exists>v. release_eq v [3, 6, 1]" "\<exists>v. release_eq v [19, 3, 1]" "\<exists>v. release_le [2, 0, 0] v"
    by (blast intro: release_eq_refl release_le_refl)+
  then show ?thesis
    by (simp add: requirements_parsed satisfies_def)
qed

text \<open>
  C1. The dependency list of the manifest has four entries, in this order: \<open>six\<close> with
  no clause and no marker; \<open>pip-tools\<close> with the single clause \<open>== 3.6.1\<close>; \<open>pip\<close> with
  the single clause \<open>== 19.3.1\<close>; \<open>mock\<close> with the clause \<open>>= 2.0.0\<close> and the marker
  \<^verbatim>\<open>python_version < '3'\<close>. The two equality clauses are satisfied by exactly the
  releases equal to 3.6.1 and to 19.3.1.
\<close>

theorem install_requires_exact:
  "map parse_requirement (install_requires setup_args) =
     [ Some \<lparr> req_name = ''six'', req_specs = [], req_marker = None \<rparr>,
       Some \<lparr> req_name = ''pip-tools'', req_specs = [(Op_eq, [3, 6, 1])], req_marker = None \<rparr>,
       Some \<lparr> req_name = ''pip'', req_specs = [(Op_eq, [19, 3, 1])], req_marker = None \<rparr>,
       Some \<lparr> req_name = ''mock'', req_specs = [(Op_ge, [2, 0, 0])],
              req_marker = Some (Python_version_cmp Op_lt [3]) \<rparr> ] \<and>
   satisfies v [(Op_eq, [3, 6, 1])] = release_eq v [3, 6, 1] \<and>
   satisfies v [(Op_eq, [19, 3, 1])] = release_eq v [19, 3, 1]"
proof -
  have "map parse_requirement (install_requires setup_args) =
     [ Some \<lparr> req_name = ''six'', req_specs = [], req_marker = None \<rparr>,
       Some \<lparr> req_name = ''pip-tools'', req_specs = [(Op_eq, [3, 6, 1])], req_marker = None \<rparr>,
       Some \<lparr> req_name = ''pip'', req_specs = [(Op_eq, [19, 3, 1])], req_marker = None \<rparr>,
       Some \<lparr> req_name = ''mock'', req_specs = [(Op_ge, [2, 0, 0])],
              req_marker = Some (Python_version_cmp Op_lt [3]) \<rparr> ]"
    by code_simp
  then show ?thesis
    by (simp add: satisfies_def)
qed

text \<open>
  C2. In every environment where \<^verbatim>\<open>python_version < '3'\<close> holds, \<open>mock\<close> is among the
  requirements that apply; in every environment where \<^verbatim>\<open>python_version >= '3'\<close>
  holds, it is not.
\<close>

theorem mock_required_iff_older:
  "(compare_release Op_lt (python_release env) [3] \<longrightarrow>
      (\<exists>ns. required env = Some ns \<and> ''mock'' \<in> set ns)) \<and>
   (compare_release Op_ge (python_release env) [3] \<longrightarrow>
      (\<exists>ns. required env = Some ns \<and> ''mock'' \<notin> set ns))"
  unfolding python_older_iff_major python_newer_iff_major
  by (simp add: required_names)

theorem mock_required_iff_older_witness:
  "compare_release Op_lt (python_release python27) [3] \<and>
   (\<exists>ns. required python27 = Some ns \<and> ''mock'' \<in> set ns) \<and>
   compare_release Op_ge (python_release python38) [3] \<and>
   (\<exists>ns. required python38 = Some ns \<and> ''mock'' \<notin> set ns)"
proof -
  have old: "compare_release Op_lt (python_release python27) [3]"
    by (simp add: python_release_def python27_def)
  have new: "compare_release Op_ge (python_release python38) [3]"
    by (simp add: python_release_def python38_def)
  from old new mock_required_iff_older [of python27] mock_required_iff_older [of python38]
  show ?thesis by blast
qed

text \<open>
  C7. The metadata does not depend on the environment: for any two environments
  (whatever their interpreter version, environment variables, command line and files),
  and whatever the called \<^verbatim>\<open>setup\<close> function does with them, evaluation gives the
  same name, version, dependency list and script list.
\<close>

theorem metadata_independent_of_environment:
  "fst (evaluate_manifest run1 env1) = fst (evaluate_manifest run2 env2)"
  by (simp add: evaluate_manifest_def)

text \<open>
  C8. The package name is \<open>pip-tools-compile\<close>, and the script list has one entry,
  equal to the package name.
\<close>

theorem name_is_script:
  "name setup_args = ''pip-tools-compile'' \<and> scripts setup_args = [name setup_args]"
  by (simp add: setup_args_def)

text \<open>C9. The package version is the string \<open>1.0\<close>.\<close>

theorem version_value: "version setup_args = ''1.0''"
  by (simp add: setup_args_def)

text \<open>
  C10. The manifest declares \<open>six\<close> with a clause list that every release satisfies, and
  \<open>mock\<close> with a clause list that a release satisfies exactly when it is at least 2.0.0;
  neither clause list is a pin.
\<close>

theorem six_and_mock_not_pinned:
  "(\<exists>sp. declared_specs ''six'' = Some sp \<and> satisfies v sp \<and> \<not> exact_pin sp) \<and>
   (\<exists>sp. declared_specs ''mock'' = Some sp \<and>
         satisfies w sp = release_le [2, 0, 0] w \<and> \<not> exact_pin sp)"
  by (simp add: declared_specs_def requirements_parsed satisfies_def exact_pin_def)

end
